theory Spec2Isabelle
  imports Main
begin

section \<open>Database provisioning and session lifecycle (package framework)\<close>

text \<open>
  The Go file declares \<^verbatim>\<open>DBExists\<close>, \<^verbatim>\<open>CreateDB\<close>, \<^verbatim>\<open>CreateSession\<close> and
  \<^verbatim>\<open>ConnectDB\<close> over the upper/db adapters for PostgreSQL and MySQL. The adapters
  and the database server are not part of the repository: they are the environment.
  Every call the code makes into them (open a session, \<^verbatim>\<open>QueryRow\<close>, \<^verbatim>\<open>Exec\<close>,
  \<^verbatim>\<open>Close\<close>) is recorded as an event of a trace that the functions thread through, and
  the outcome of each call is chosen by a \<open>driver\<close>, an arbitrary function of the history
  and of the request. The calls to \<^verbatim>\<open>log.Println\<close> are left out.
\<close>

subsection \<open>Data\<close>

record DBConfig =
  Host :: string
  Port :: int
  User :: string
  Password :: string
  Database :: string

text \<open>The two adapters the file imports, and the fields of their \<^verbatim>\<open>ConnectionURL\<close> that
  the code sets. A field the code leaves out has Go's zero value, the empty string.\<close>

datatype adapter = Postgresql | Mysql

record ConnectionURL =
  url_Host :: string
  url_User :: string
  url_Password :: string
  url_Database :: string

record Session =
  sess_id :: nat
  sess_adapter :: adapter
  sess_url :: ConnectionURL

text \<open>\<^verbatim>\<open>ErrUnknownDialect\<close> and \<^verbatim>\<open>ErrNoSuchDatabase\<close> are the two sentinels of the
  file; \<open>DriverError\<close> is an error produced by the adapter; \<open>Errorf p e\<close> is
  \<^verbatim>\<open>fmt.Errorf(p + "%w", e)\<close>.\<close>

datatype error =
    ErrUnknownDialect
  | ErrNoSuchDatabase
  | DriverError string
  | Errorf string error

subsection \<open>The environment: adapter calls as trace events\<close>

datatype event =
    EvOpen adapter ConnectionURL "nat option"
  | EvQueryRow nat string
  | EvExec nat string
  | EvClose nat

text \<open>\<^verbatim>\<open>QueryRow\<close> returns an error or a row; the row holds the first column of the
  first matching record, if there is one. \<^verbatim>\<open>Exec\<close> returns an error or a result that
  is nil or not.\<close>

datatype row = Row "string option"

record driver =
  open_err :: "event list \<Rightarrow> adapter \<Rightarrow> ConnectionURL \<Rightarrow> string option"
  query_row :: "event list \<Rightarrow> nat \<Rightarrow> string \<Rightarrow> string + row"
  exec_sql :: "event list \<Rightarrow> nat \<Rightarrow> string \<Rightarrow> string + bool"

text \<open>\<^verbatim>\<open>postgresql.Open\<close> / \<^verbatim>\<open>mysql.Open\<close>: a failed open returns a nil session and
  the error; a successful one returns a new session, identified by its position in the
  trace.\<close>

definition db_Open ::
  "driver \<Rightarrow> adapter \<Rightarrow> ConnectionURL \<Rightarrow> event list \<Rightarrow> (error + Session) \<times> event list" where
  "db_Open drv a settings tr =
     (case open_err drv tr a settings of
        Some msg \<Rightarrow> (Inl (DriverError msg), tr @ [EvOpen a settings None])
      | None \<Rightarrow>
          (Inr \<lparr>sess_id = length tr, sess_adapter = a, sess_url = settings\<rparr>,
           tr @ [EvOpen a settings (Some (length tr))]))"

definition QueryRow ::
  "driver \<Rightarrow> Session \<Rightarrow> string \<Rightarrow> event list \<Rightarrow> (error + row) \<times> event list" where
  "QueryRow drv sess q tr =
     (case query_row drv tr (sess_id sess) q of
        Inl msg \<Rightarrow> (Inl (DriverError msg), tr @ [EvQueryRow (sess_id sess) q])
      | Inr r \<Rightarrow> (Inr r, tr @ [EvQueryRow (sess_id sess) q]))"

definition Exec ::
  "driver \<Rightarrow> Session \<Rightarrow> string \<Rightarrow> event list \<Rightarrow> (error + bool) \<times> event list" where
  "Exec drv sess q tr =
     (case exec_sql drv tr (sess_id sess) q of
        Inl msg \<Rightarrow> (Inl (DriverError msg), tr @ [EvExec (sess_id sess) q])
      | Inr res \<Rightarrow> (Inr res, tr @ [EvExec (sess_id sess) q]))"

definition Close :: "Session \<Rightarrow> event list \<Rightarrow> event list" where
  "Close sess tr = tr @ [EvClose (sess_id sess)]"

text \<open>\<^verbatim>\<open>row.Scan(&database)\<close> with its error ignored: the variable keeps its zero
  value when there is no row.\<close>

fun Scan :: "row \<Rightarrow> string" where
  "Scan (Row (Some v)) = v"
| "Scan (Row None) = []"

text \<open>The deferred function of \<^verbatim>\<open>DBExists\<close> and \<^verbatim>\<open>CreateDB\<close>: close the session
  when the variable is not nil.\<close>

fun deferred_close :: "Session option \<Rightarrow> event list \<Rightarrow> event list" where
  "deferred_close None tr = tr"
| "deferred_close (Some sess) tr = Close sess tr"

definition quote :: string where
  "quote = [CHR 0x27]"

subsection \<open>Observations on a trace\<close>

text \<open>The sessions a trace opens and the sessions it closes, in order, with repetitions.\<close>

fun opens :: "event list \<Rightarrow> nat list" where
  "opens [] = []"
| "opens (EvOpen a u (Some s) # es) = s # opens es"
| "opens (e # es) = opens es"

fun closes :: "event list \<Rightarrow> nat list" where
  "closes [] = []"
| "closes (EvClose s # es) = s # closes es"
| "closes (e # es) = closes es"

text \<open>The sessions that are open at the end of a trace.\<close>

definition live :: "event list \<Rightarrow> nat list" where
  "live tr = filter (\<lambda>s. s \<notin> set (closes tr)) (opens tr)"

subsection \<open>The four functions of the file\<close>

text \<open>\<^verbatim>\<open>DBExists\<close>. The body returns the result, the value of the variable
  \<^verbatim>\<open>sess\<close> at the return, and the trace; the deferred function runs on them.\<close>

definition DBExists_body ::
  "driver \<Rightarrow> string \<Rightarrow> DBConfig \<Rightarrow> event list
     \<Rightarrow> (bool \<times> error option) \<times> Session option \<times> event list" where
  "DBExists_body drv dialect dbConfig tr =
     (if dialect = ''postgres'' then
        (let settings = \<lparr>url_Host = Host dbConfig, url_User = User dbConfig,
                          url_Password = Password dbConfig, url_Database = []\<rparr> in
         case db_Open drv Postgresql settings tr of
           (Inl err, tr1) \<Rightarrow> ((False, Some (Errorf ''failed to connect: '' err)), None, tr1)
         | (Inr sess, tr1) \<Rightarrow>
             (case QueryRow drv sess
                     (''SELECT datname FROM pg_catalog.pg_database WHERE lower(datname) = lower(''
                        @ quote @ Database dbConfig @ quote @ '')'') tr1 of
                (Inl err, tr2) \<Rightarrow>
                  ((False, Some (Errorf ''failed to check db existence: '' err)), Some sess, tr2)
              | (Inr row, tr2) \<Rightarrow>
                  (let database = Scan row in
                   if database \<noteq> Database dbConfig
                   then ((False, Some ErrNoSuchDatabase), Some sess, tr2)
                   else ((True, None), Some sess, tr2))))
      else if dialect = ''mysql'' then
        (let settings = \<lparr>url_Host = Host dbConfig, url_User = User dbConfig,
                          url_Password = Password dbConfig, url_Database = []\<rparr> in
         case db_Open drv Mysql settings tr of
           (Inl err, tr1) \<Rightarrow> ((False, Some (Errorf ''failed to connect: '' err)), None, tr1)
         | (Inr sess, tr1) \<Rightarrow>
             (case QueryRow drv sess
                     (''SELECT SCHEMA_NAME FROM INFORMATION_SCHEMA.SCHEMATA WHERE SCHEMA_NAME = ''
                        @ quote @ Database dbConfig @ quote) tr1 of
                (Inl err, tr2) \<Rightarrow>
                  ((False, Some (Errorf ''failed to check db existence: '' err)), Some sess, tr2)
              | (Inr row, tr2) \<Rightarrow>
                  (let database = Scan row in
                   if database \<noteq> Database dbConfig
                   then ((False, Some ErrNoSuchDatabase), Some sess, tr2)
                   else ((True, None), Some sess, tr2))))
      else ((False, Some ErrUnknownDialect), None, tr))"

definition DBExists ::
  "driver \<Rightarrow> string \<Rightarrow> DBConfig \<Rightarrow> event list \<Rightarrow> (bool \<times> error option) \<times> event list" where
  "DBExists drv dialect dbConfig tr =
     (case DBExists_body drv dialect dbConfig tr of
        (res, sess, tr') \<Rightarrow> (res, deferred_close sess tr'))"

text \<open>\<^verbatim>\<open>CreateSession\<close>.\<close>

definition CreateSession ::
  "driver \<Rightarrow> string \<Rightarrow> DBConfig \<Rightarrow> bool \<Rightarrow> event list \<Rightarrow> (error + Session) \<times> event list" where
  "CreateSession drv dialect dbConfig ignoreDb tr =
     (if dialect = ''postgres'' then
        (let settings = \<lparr>url_Host = Host dbConfig, url_User = User dbConfig,
                          url_Password = Password dbConfig, url_Database = []\<rparr>;
             settings = (if \<not> ignoreDb then settings\<lparr>url_Database := Database dbConfig\<rparr>
                         else settings) in
         case db_Open drv Postgresql settings tr of
           (Inl err, tr1) \<Rightarrow> (Inl (Errorf ''failed to connect: '' err), tr1)
         | (Inr sess, tr1) \<Rightarrow> (Inr sess, tr1))
      else if dialect = ''mysql'' then
        (let settings = \<lparr>url_Host = Host dbConfig, url_User = User dbConfig,
                          url_Password = Password dbConfig, url_Database = []\<rparr>;
             settings = (if \<not> ignoreDb then settings\<lparr>url_Database := Database dbConfig\<rparr>
                         else settings) in
         case db_Open drv Mysql settings tr of
           (Inl err, tr1) \<Rightarrow> (Inl (Errorf ''failed to connect: '' err), tr1)
         | (Inr sess, tr1) \<Rightarrow> (Inr sess, tr1))
      else (Inl ErrUnknownDialect, tr))"

text \<open>\<^verbatim>\<open>CreateDB\<close>. Each of the two dialect blocks either returns (\<open>Some\<close> of the
  returned error value) or falls through to the code after it (\<open>None\<close>), as it does
  when \<^verbatim>\<open>Exec\<close> gives a nil result and a nil error.\<close>

definition CreateDB_body ::
  "driver \<Rightarrow> string \<Rightarrow> DBConfig \<Rightarrow> event list \<Rightarrow> error option \<times> Session option \<times> event list" where
  "CreateDB_body drv dialect dbConfig tr =
     (case CreateSession drv dialect dbConfig True tr of
        (Inl err, tr1) \<Rightarrow> (Some err, None, tr1)
      | (Inr sess, tr1) \<Rightarrow>
          (case (if dialect = ''postgres'' then
                   (case Exec drv sess (''CREATE DATABASE '' @ Database dbConfig
                                          @ '' WITH OWNER '' @ User dbConfig) tr1 of
                      (Inl err, tr2) \<Rightarrow> (Some (Some err), tr2)
                    | (Inr res, tr2) \<Rightarrow> (if res then Some None else None, tr2))
                 else (None, tr1)) of
             (Some ret, tr2) \<Rightarrow> (ret, Some sess, tr2)
           | (None, tr2) \<Rightarrow>
               (case (if dialect = ''mysql'' then
                        (case Exec drv sess (''CREATE DATABASE IF NOT EXISTS ''
                                               @ Database dbConfig) tr2 of
                           (Inl err, tr3) \<Rightarrow> (Some (Some err), tr3)
                         | (Inr res, tr3) \<Rightarrow> (if res then Some None else None, tr3))
                      else (None, tr2)) of
                  (Some ret, tr3) \<Rightarrow> (ret, Some sess, tr3)
                | (None, tr3) \<Rightarrow> (None, Some sess, tr3))))"

definition CreateDB ::
  "driver \<Rightarrow> string \<Rightarrow> DBConfig \<Rightarrow> event list \<Rightarrow> error option \<times> event list" where
  "CreateDB drv dialect dbConfig tr =
     (case CreateDB_body drv dialect dbConfig tr of
        (res, sess, tr') \<Rightarrow> (res, deferred_close sess tr'))"

text \<open>\<^verbatim>\<open>ConnectDB\<close>. The error of \<^verbatim>\<open>DBExists\<close> is assigned to the blank
  identifier.\<close>

definition ConnectDB ::
  "driver \<Rightarrow> string \<Rightarrow> DBConfig \<Rightarrow> event list \<Rightarrow> (error + Session) \<times> event list" where
  "ConnectDB drv dialect dbConfig tr =
     (case CreateSession drv dialect dbConfig True tr of
        (Inl err, tr1) \<Rightarrow> (Inl err, tr1)
      | (Inr sess, tr1) \<Rightarrow>
          (case DBExists drv dialect dbConfig tr1 of
             ((exists, _), tr2) \<Rightarrow>
               if \<not> exists then
                 (case CreateDB drv dialect dbConfig tr2 of
                    (Some err, tr3) \<Rightarrow> (Inl err, tr3)
                  | (None, tr3) \<Rightarrow> (Inr sess, tr3))
               else
                 (let tr3 = Close sess tr2 in
                  case CreateSession drv dialect dbConfig False tr3 of
                    (Inl err, tr4) \<Rightarrow> (Inl err, tr4)
                  | (Inr sess', tr4) \<Rightarrow> (Inr sess', tr4))))"

subsection \<open>Names for what the functions send\<close>

text \<open>The adapter a supported dialect opens, the settings of an unscoped session, and the
  catalog query of each dialect, as they stand in the bodies above.\<close>

definition adapter_of :: "string \<Rightarrow> adapter" where
  "adapter_of dialect = (if dialect = ''postgres'' then Postgresql else Mysql)"

definition unscoped_settings :: "DBConfig \<Rightarrow> ConnectionURL" where
  "unscoped_settings dbConfig =
     \<lparr>url_Host = Host dbConfig, url_User = User dbConfig,
      url_Password = Password dbConfig, url_Database = []\<rparr>"

definition exists_sql :: "string \<Rightarrow> string \<Rightarrow> string" where
  "exists_sql dialect name =
     (if dialect = ''postgres''
      then ''SELECT datname FROM pg_catalog.pg_database WHERE lower(datname) = lower(''
             @ quote @ name @ quote @ '')''
      else ''SELECT SCHEMA_NAME FROM INFORMATION_SCHEMA.SCHEMATA WHERE SCHEMA_NAME = ''
             @ quote @ name @ quote)"

definition create_sql :: "string \<Rightarrow> DBConfig \<Rightarrow> string" where
  "create_sql dialect dbConfig =
     (if dialect = ''postgres''
      then ''CREATE DATABASE '' @ Database dbConfig @ '' WITH OWNER '' @ User dbConfig
      else ''CREATE DATABASE IF NOT EXISTS '' @ Database dbConfig)"

text \<open>The events a run adds to the trace it started from.\<close>

definition added :: "event list \<Rightarrow> event list \<Rightarrow> event list" where
  "added tr tr' = drop (length tr) tr'"

subsection \<open>Concrete environments\<close>

text \<open>A server that holds a fixed catalog of database names and answers the two catalog
  queries for one name the way each engine does: PostgreSQL compares the lower-cased
  names, MySQL the names as stored. Every session opens and every statement succeeds.\<close>

definition lower_char :: "char \<Rightarrow> char" where
  "lower_char c =
     (let n = (of_char c :: nat) in if 65 \<le> n \<and> n \<le> 90 then char_of (n + 32) else c)"

definition lower :: "string \<Rightarrow> string" where
  "lower s = map lower_char s"

definition catalog_driver :: "string list \<Rightarrow> string \<Rightarrow> driver" where
  "catalog_driver cat name =
     \<lparr>open_err = (\<lambda>tr a u. None),
      query_row = (\<lambda>tr sid sql.
         if sql = exists_sql ''postgres'' name
         then Inr (Row (find (\<lambda>d. lower d = lower name) cat))
         else if sql = exists_sql ''mysql'' name
         then Inr (Row (find (\<lambda>d. d = name) cat))
         else Inl ''syntax error''),
      exec_sql = (\<lambda>tr sid sql. Inr True)\<rparr>"

text \<open>A server on which every session opens, every query has the outcome \<open>q\<close> and every
  statement the outcome \<open>e\<close>.\<close>

definition fixed_driver :: "string + row \<Rightarrow> string + bool \<Rightarrow> driver" where
  "fixed_driver q e =
     \<lparr>open_err = (\<lambda>tr a u. None),
      query_row = (\<lambda>tr sid sql. q),
      exec_sql = (\<lambda>tr sid sql. e)\<rparr>"

definition config :: "string \<Rightarrow> DBConfig" where
  "config name =
     \<lparr>Host = ''localhost'', Port = 5432, User = ''admin'', Password = ''secret'',
      Database = name\<rparr>"

section \<open>Properties\<close>

subsection \<open>What each function does on a supported dialect\<close>

lemma DBExists_supported:
  assumes "dialect = ''postgres'' \<or> dialect = ''mysql''"
  shows "DBExists drv dialect cfg tr =
    (case open_err drv tr (adapter_of dialect) (unscoped_settings cfg) of
       Some msg \<Rightarrow> ((False, Some (Errorf ''failed to connect: '' (DriverError msg))),
                    tr @ [EvOpen (adapter_of dialect) (unscoped_settings cfg) None])
     | None \<Rightarrow>
        (case query_row drv
                (tr @ [EvOpen (adapter_of dialect) (unscoped_settings cfg) (Some (length tr))])
                (length tr) (exists_sql dialect (Database cfg)) of
           Inl msg \<Rightarrow> ((False, Some (Errorf ''failed to check db existence: '' (DriverError msg))),
                       tr @ [EvOpen (adapter_of dialect) (unscoped_settings cfg) (Some (length tr)),
                             EvQueryRow (length tr) (exists_sql dialect (Database cfg)),
                             EvClose (length tr)])
         | Inr row \<Rightarrow> ((Scan row = Database cfg,
                        if Scan row = Database cfg then None else Some ErrNoSuchDatabase),
                       tr @ [EvOpen (adapter_of dialect) (unscoped_settings cfg) (Some (length tr)),
                             EvQueryRow (length tr) (exists_sql dialect (Database cfg)),
                             EvClose (length tr)])))"
  using assms
  by (auto simp: DBExists_def DBExists_body_def db_Open_def QueryRow_def Close_def
        adapter_of_def unscoped_settings_def exists_sql_def Let_def
      split: option.splits sum.splits)

lemma CreateSession_supported:
  assumes "dialect = ''postgres'' \<or> dialect = ''mysql''"
  shows "CreateSession drv dialect cfg ignoreDb tr =
    (case open_err drv tr (adapter_of dialect)
            ((unscoped_settings cfg)\<lparr>url_Database := (if ignoreDb then [] else Database cfg)\<rparr>) of
       Some msg \<Rightarrow>
         (Inl (Errorf ''failed to connect: '' (DriverError msg)),
          tr @ [EvOpen (adapter_of dialect)
                  ((unscoped_settings cfg)\<lparr>url_Database := (if ignoreDb then [] else Database cfg)\<rparr>)
                  None])
     | None \<Rightarrow>
         (Inr \<lparr>sess_id = length tr, sess_adapter = adapter_of dialect,
               sess_url = (unscoped_settings cfg)
                            \<lparr>url_Database := (if ignoreDb then [] else Database cfg)\<rparr>\<rparr>,
          tr @ [EvOpen (adapter_of dialect)
                  ((unscoped_settings cfg)\<lparr>url_Database := (if ignoreDb then [] else Database cfg)\<rparr>)
                  (Some (length tr))]))"
  using assms
  by (auto simp: CreateSession_def db_Open_def adapter_of_def unscoped_settings_def Let_def
      split: option.splits sum.splits)

lemma CreateDB_supported:
  assumes "dialect = ''postgres'' \<or> dialect = ''mysql''"
  shows "CreateDB drv dialect cfg tr =
    (case open_err drv tr (adapter_of dialect) (unscoped_settings cfg) of
       Some msg \<Rightarrow> (Some (Errorf ''failed to connect: '' (DriverError msg)),
                    tr @ [EvOpen (adapter_of dialect) (unscoped_settings cfg) None])
     | None \<Rightarrow>
        (case exec_sql drv
                (tr @ [EvOpen (adapter_of dialect) (unscoped_settings cfg) (Some (length tr))])
                (length tr) (create_sql dialect cfg) of
           Inl msg \<Rightarrow> (Some (DriverError msg),
                       tr @ [EvOpen (adapter_of dialect) (unscoped_settings cfg) (Some (length tr)),
                             EvExec (length tr) (create_sql dialect cfg),
                             EvClose (length tr)])
         | Inr res \<Rightarrow> (None,
                       tr @ [EvOpen (adapter_of dialect) (unscoped_settings cfg) (Some (length tr)),
                             EvExec (length tr) (create_sql dialect cfg),
                             EvClose (length tr)])))"
  using assms
  by (auto simp: CreateDB_def CreateDB_body_def CreateSession_def db_Open_def Exec_def Close_def
        adapter_of_def unscoped_settings_def create_sql_def Let_def
      split: option.splits sum.splits)

lemma CreateDB_unsupported:
  "dialect \<noteq> ''postgres'' \<Longrightarrow> dialect \<noteq> ''mysql'' \<Longrightarrow>
   CreateDB drv dialect cfg tr = (Some ErrUnknownDialect, tr)"
  by (simp add: CreateDB_def CreateDB_body_def CreateSession_def)

text \<open>Neither function removes or rewrites an event of the trace it is given.\<close>

lemma CreateDB_extends: "\<exists>evs. snd (CreateDB drv dialect cfg tr) = tr @ evs"
proof (cases "dialect = ''postgres'' \<or> dialect = ''mysql''")
  case True
  then show ?thesis
    by (simp add: CreateDB_supported split: option.splits sum.splits)
next
  case False
  then show ?thesis by (simp add: CreateDB_unsupported)
qed

lemma CreateSession_extends: "\<exists>evs. snd (CreateSession drv dialect cfg ignoreDb tr) = tr @ evs"
  by (auto simp: CreateSession_def db_Open_def Let_def split: option.splits)

text \<open>The errors \<^verbatim>\<open>CreateDB\<close> can return: the one of \<^verbatim>\<open>CreateSession\<close>, or the
  one of \<^verbatim>\<open>Exec\<close>, which it does not wrap.\<close>

lemma CreateDB_error_cases:
  assumes "fst (CreateDB drv dialect cfg tr) = Some err"
  shows "err = ErrUnknownDialect \<or> (\<exists>m. err = Errorf ''failed to connect: '' (DriverError m))
         \<or> (\<exists>m. err = DriverError m)"
proof (cases "dialect = ''postgres'' \<or> dialect = ''mysql''")
  case True
  with assms show ?thesis
    by (auto simp: CreateDB_supported split: option.splits sum.splits)
next
  case False
  with assms show ?thesis by (simp add: CreateDB_unsupported)
qed

text \<open>The definitions a concrete run unfolds.\<close>

lemmas ev_defs = DBExists_def DBExists_body_def CreateSession_def CreateDB_def CreateDB_body_def
  ConnectDB_def db_Open_def QueryRow_def Exec_def Close_def adapter_of_def unscoped_settings_def
  exists_sql_def create_sql_def added_def catalog_driver_def fixed_driver_def config_def lower_def
  lower_char_def quote_def live_def Let_def

subsection \<open>Unsupported dialects\<close>

text \<open>
  C6. For every dialect string other than \<^verbatim>\<open>"postgres"\<close> and \<^verbatim>\<open>"mysql"\<close>, each of
  \<^verbatim>\<open>ConnectDB\<close>, \<^verbatim>\<open>DBExists\<close>, \<^verbatim>\<open>CreateDB\<close> and \<^verbatim>\<open>CreateSession\<close> returns
  \<^verbatim>\<open>ErrUnknownDialect\<close> and leaves the trace as it was: no session is opened, no query
  or statement is sent, and no supported dialect is used in its place.
\<close>

theorem unsupported_dialect_no_io:
  assumes "dialect \<noteq> ''postgres''" and "dialect \<noteq> ''mysql''"
  shows "ConnectDB drv dialect cfg tr = (Inl ErrUnknownDialect, tr) \<and>
         DBExists drv dialect cfg tr = ((False, Some ErrUnknownDialect), tr) \<and>
         CreateDB drv dialect cfg tr = (Some ErrUnknownDialect, tr) \<and>
         CreateSession drv dialect cfg ignoreDb tr = (Inl ErrUnknownDialect, tr)"
  using assms
  by (simp add: DBExists_def DBExists_body_def CreateSession_def CreateDB_def CreateDB_body_def
        ConnectDB_def)

theorem unsupported_dialect_no_io_witness:
  "''sqlite'' \<noteq> ''postgres'' \<and> ''sqlite'' \<noteq> ''mysql'' \<and>
   ConnectDB (catalog_driver [''app''] ''app'') ''sqlite'' (config ''app'') []
     = (Inl ErrUnknownDialect, []) \<and>
   DBExists (catalog_driver [''app''] ''app'') ''sqlite'' (config ''app'') []
     = ((False, Some ErrUnknownDialect), []) \<and>
   CreateDB (catalog_driver [''app''] ''app'') ''sqlite'' (config ''app'') []
     = (Some ErrUnknownDialect, []) \<and>
   CreateSession (catalog_driver [''app''] ''app'') ''sqlite'' (config ''app'') False []
     = (Inl ErrUnknownDialect, [])"
  using unsupported_dialect_no_io
          [of "''sqlite''" "catalog_driver [''app''] ''app''" "config ''app''" "[]" False]
  by simp

subsection \<open>The session factory\<close>

text \<open>
  C8. On a supported dialect \<^verbatim>\<open>CreateSession\<close> makes one attempt to open a session, with
  the host, user and password of the configuration; the settings carry the database name
  exactly when the call is scoped (\<^verbatim>\<open>ignoreDb\<close> false), and the empty name when it is
  not. The session returned on success has those settings.
\<close>

theorem CreateSession_database_iff_scoped:
  assumes "dialect = ''postgres'' \<or> dialect = ''mysql''"
  shows "(\<exists>r. added tr (snd (CreateSession drv dialect cfg ignoreDb tr))
            = [EvOpen (adapter_of dialect)
                 \<lparr>url_Host = Host cfg, url_User = User cfg, url_Password = Password cfg,
                  url_Database = (if ignoreDb then [] else Database cfg)\<rparr> r]) \<and>
         (\<forall>s. fst (CreateSession drv dialect cfg ignoreDb tr) = Inr s \<longrightarrow>
            sess_url s = \<lparr>url_Host = Host cfg, url_User = User cfg, url_Password = Password cfg,
                          url_Database = (if ignoreDb then [] else Database cfg)\<rparr>)"
  using assms
  by (auto simp: CreateSession_supported unscoped_settings_def added_def split: option.splits)

theorem CreateSession_database_iff_scoped_witness:
  "(''postgres'' = ''postgres'' \<or> ''postgres'' = ''mysql'') \<and>
   added [] (snd (CreateSession (catalog_driver [] ''app'') ''postgres'' (config ''app'') False []))
     = [EvOpen Postgresql
          \<lparr>url_Host = ''localhost'', url_User = ''admin'', url_Password = ''secret'',
           url_Database = ''app''\<rparr> (Some 0)] \<and>
   added [] (snd (CreateSession (catalog_driver [] ''app'') ''postgres'' (config ''app'') True []))
     = [EvOpen Postgresql
          \<lparr>url_Host = ''localhost'', url_User = ''admin'', url_Password = ''secret'',
           url_Database = []\<rparr> (Some 0)]"
  using CreateSession_database_iff_scoped
          [of "''postgres''" "[]" "catalog_driver [] ''app''" "config ''app''" False]
        CreateSession_database_iff_scoped
          [of "''postgres''" "[]" "catalog_driver [] ''app''" "config ''app''" True]
  by (simp add: CreateSession_def db_Open_def catalog_driver_def config_def adapter_of_def
        added_def Let_def)

subsection \<open>The existence probe\<close>

text \<open>
  C10. Whatever the dialect and whatever the adapter answers, \<^verbatim>\<open>DBExists\<close> only adds
  events to the trace, and the sessions it closes are the sessions it opened, each once:
  the one session after a query error, after an empty row and after a match, and none
  when the open fails or the dialect is unknown.
\<close>

theorem DBExists_closes_what_it_opens:
  "take (length tr) (snd (DBExists drv dialect cfg tr)) = tr \<and>
   closes (added tr (snd (DBExists drv dialect cfg tr)))
     = opens (added tr (snd (DBExists drv dialect cfg tr)))"
proof (cases "dialect = ''postgres'' \<or> dialect = ''mysql''")
  case True
  then show ?thesis
    by (simp add: DBExists_supported added_def split: option.splits sum.splits)
next
  case False
  then show ?thesis
    by (simp add: DBExists_def DBExists_body_def added_def)
qed

text \<open>
  C5, as the claim states it, fails: on MySQL with a catalog that has no \<^verbatim>\<open>app\<close>, the
  query succeeds with no row and \<^verbatim>\<open>DBExists\<close> returns false together with the error
  \<^verbatim>\<open>ErrNoSuchDatabase\<close>, not false with no error.
\<close>

theorem DBExists_no_row_counterexample:
  "query_row (catalog_driver [''mysql'', ''sys''] ''app'')
      [EvOpen Mysql (unscoped_settings (config ''app'')) (Some 0)] 0 (exists_sql ''mysql'' ''app'')
     = Inr (Row None) \<and>
   fst (DBExists (catalog_driver [''mysql'', ''sys''] ''app'') ''mysql'' (config ''app'') [])
     = (False, Some ErrNoSuchDatabase) \<and>
   fst (DBExists (catalog_driver [''mysql'', ''sys''] ''app'') ''mysql'' (config ''app'') [])
     \<noteq> (False, None)"
  by (simp add: ev_defs)

text \<open>
  C5, amended. On a supported dialect, when the probe's session opens and the database
  name is not empty: a query that succeeds with no row gives false with the sentinel
  \<^verbatim>\<open>ErrNoSuchDatabase\<close>; a query that fails gives false with the adapter's error
  wrapped as "failed to check db existence", which is a different error.
\<close>

theorem DBExists_no_row_is_ErrNoSuchDatabase:
  assumes "dialect = ''postgres'' \<or> dialect = ''mysql''"
    and "open_err drv tr (adapter_of dialect) (unscoped_settings cfg) = None"
    and "Database cfg \<noteq> []"
  shows "(query_row drv
            (tr @ [EvOpen (adapter_of dialect) (unscoped_settings cfg) (Some (length tr))])
            (length tr) (exists_sql dialect (Database cfg)) = Inr (Row None)
          \<longrightarrow> fst (DBExists drv dialect cfg tr) = (False, Some ErrNoSuchDatabase)) \<and>
         (\<forall>msg. query_row drv
            (tr @ [EvOpen (adapter_of dialect) (unscoped_settings cfg) (Some (length tr))])
            (length tr) (exists_sql dialect (Database cfg)) = Inl msg
          \<longrightarrow> fst (DBExists drv dialect cfg tr)
                = (False, Some (Errorf ''failed to check db existence: '' (DriverError msg))))"
  using assms by (auto simp: DBExists_supported)

theorem DBExists_no_row_is_ErrNoSuchDatabase_witness:
  "(open_err (catalog_driver [''mysql'', ''sys''] ''app'') [] (adapter_of ''mysql'')
      (unscoped_settings (config ''app'')) = None \<and>
    Database (config ''app'') \<noteq> [] \<and>
    query_row (catalog_driver [''mysql'', ''sys''] ''app'')
      ([] @ [EvOpen (adapter_of ''mysql'') (unscoped_settings (config ''app'')) (Some (length []))])
      (length []) (exists_sql ''mysql'' (Database (config ''app''))) = Inr (Row None) \<and>
    fst (DBExists (catalog_driver [''mysql'', ''sys''] ''app'') ''mysql'' (config ''app'') [])
      = (False, Some ErrNoSuchDatabase)) \<and>
   (open_err (fixed_driver (Inl ''connection reset'') (Inr True)) [] (adapter_of ''postgres'')
      (unscoped_settings (config ''app'')) = None \<and>
    query_row (fixed_driver (Inl ''connection reset'') (Inr True))
      ([] @ [EvOpen (adapter_of ''postgres'') (unscoped_settings (config ''app'')) (Some (length []))])
      (length []) (exists_sql ''postgres'' (Database (config ''app''))) = Inl ''connection reset'' \<and>
    fst (DBExists (fixed_driver (Inl ''connection reset'') (Inr True)) ''postgres'' (config ''app'') [])
      = (False, Some (Errorf ''failed to check db existence: '' (DriverError ''connection reset''))))"
  using DBExists_no_row_is_ErrNoSuchDatabase
          [of "''mysql''" "catalog_driver [''mysql'', ''sys''] ''app''" "[]" "config ''app''"]
        DBExists_no_row_is_ErrNoSuchDatabase
          [of "''postgres''" "fixed_driver (Inl ''connection reset'') (Inr True)" "[]" "config ''app''"]
  by (simp add: catalog_driver_def fixed_driver_def config_def exists_sql_def quote_def lower_def
        lower_char_def)

text \<open>
  C4 at the input of the claim: the catalog holds \<^verbatim>\<open>mydb\<close>, the probe is for
  \<^verbatim>\<open>MyDb\<close> on PostgreSQL. The query, which lower-cases both sides, returns the row
  \<^verbatim>\<open>mydb\<close>; the comparison of that row with the configured name is exact, and
  \<^verbatim>\<open>DBExists\<close> returns false with \<^verbatim>\<open>ErrNoSuchDatabase\<close>.
\<close>

theorem DBExists_postgres_case_mismatch:
  "query_row (catalog_driver [''postgres'', ''mydb''] ''MyDb'') [] 0 (exists_sql ''postgres'' ''MyDb'')
     = Inr (Row (Some ''mydb'')) \<and>
   fst (DBExists (catalog_driver [''postgres'', ''mydb''] ''MyDb'') ''postgres'' (config ''MyDb'') [])
     = (False, Some ErrNoSuchDatabase)"
  by code_simp

subsection \<open>The provisioner\<close>

text \<open>
  C7. When its session opens, \<^verbatim>\<open>CreateDB\<close> opens one unscoped session, sends one
  statement on it and closes it. On PostgreSQL the statement is
  \<^verbatim>\<open>CREATE DATABASE <name> WITH OWNER <user>\<close>, on MySQL it is
  \<^verbatim>\<open>CREATE DATABASE IF NOT EXISTS <name>\<close>.
\<close>

theorem CreateDB_issues_dialect_DDL:
  "(open_err drv tr Postgresql (unscoped_settings cfg) = None \<longrightarrow>
      added tr (snd (CreateDB drv ''postgres'' cfg tr))
        = [EvOpen Postgresql (unscoped_settings cfg) (Some (length tr)),
           EvExec (length tr) (''CREATE DATABASE '' @ Database cfg @ '' WITH OWNER '' @ User cfg),
           EvClose (length tr)]) \<and>
   (open_err drv tr Mysql (unscoped_settings cfg) = None \<longrightarrow>
      added tr (snd (CreateDB drv ''mysql'' cfg tr))
        = [EvOpen Mysql (unscoped_settings cfg) (Some (length tr)),
           EvExec (length tr) (''CREATE DATABASE IF NOT EXISTS '' @ Database cfg),
           EvClose (length tr)])"
  by (simp add: CreateDB_supported adapter_of_def create_sql_def added_def split: sum.splits)

theorem CreateDB_issues_dialect_DDL_witness:
  "open_err (catalog_driver [] ''app'') [] Postgresql (unscoped_settings (config ''app'')) = None \<and>
   added [] (snd (CreateDB (catalog_driver [] ''app'') ''postgres'' (config ''app'') []))
     = [EvOpen Postgresql (unscoped_settings (config ''app'')) (Some 0),
        EvExec 0 ''CREATE DATABASE app WITH OWNER admin'',
        EvClose 0] \<and>
   open_err (catalog_driver [] ''app'') [] Mysql (unscoped_settings (config ''app'')) = None \<and>
   added [] (snd (CreateDB (catalog_driver [] ''app'') ''mysql'' (config ''app'') []))
     = [EvOpen Mysql (unscoped_settings (config ''app'')) (Some 0),
        EvExec 0 ''CREATE DATABASE IF NOT EXISTS app'',
        EvClose 0]"
  using CreateDB_issues_dialect_DDL [of "catalog_driver [] ''app''" "[]" "config ''app''"]
  by (simp add: catalog_driver_def config_def)

subsection \<open>The orchestrator\<close>

text \<open>
  C9, as the claim states it, fails: \<^verbatim>\<open>DBExists\<close> takes no session. In a run of
  \<^verbatim>\<open>ConnectDB\<close> the bootstrap session is session 0, the probe opens session 1, sends
  its query on session 1 and closes it; no query is sent on session 0.
\<close>

theorem ConnectDB_probe_session_counterexample:
  "take 4 (snd (ConnectDB (catalog_driver [''app''] ''app'') ''mysql'' (config ''app'') []))
     = [EvOpen Mysql (unscoped_settings (config ''app'')) (Some 0),
        EvOpen Mysql (unscoped_settings (config ''app'')) (Some 1),
        EvQueryRow 1 (exists_sql ''mysql'' ''app''),
        EvClose 1] \<and>
   EvQueryRow 0 (exists_sql ''mysql'' ''app'')
     \<notin> set (snd (ConnectDB (catalog_driver [''app''] ''app'') ''mysql'' (config ''app'') []))"
  by (simp add: ev_defs)

text \<open>
  C9, amended. On a supported dialect, when the bootstrap session and the probe's session
  both open, a run of \<^verbatim>\<open>ConnectDB\<close> starts with: the bootstrap session is opened
  unscoped; the probe opens a second unscoped session of its own, sends the catalog query
  on that second session and closes it. The bootstrap session is not the one queried.
\<close>

theorem ConnectDB_probe_opens_own_session:
  assumes "dialect = ''postgres'' \<or> dialect = ''mysql''"
    and "open_err drv tr (adapter_of dialect) (unscoped_settings cfg) = None"
    and "open_err drv (tr @ [EvOpen (adapter_of dialect) (unscoped_settings cfg) (Some (length tr))])
           (adapter_of dialect) (unscoped_settings cfg) = None"
  shows "take (length tr + 4) (snd (ConnectDB drv dialect cfg tr))
     = tr @ [EvOpen (adapter_of dialect) (unscoped_settings cfg) (Some (length tr)),
             EvOpen (adapter_of dialect) (unscoped_settings cfg) (Some (Suc (length tr))),
             EvQueryRow (Suc (length tr)) (exists_sql dialect (Database cfg)),
             EvClose (Suc (length tr))]"
proof -
  let ?a = "adapter_of dialect" and ?u = "unscoped_settings cfg"
  let ?s = "\<lparr>sess_id = length tr, sess_adapter = ?a, sess_url = ?u\<rparr>"
  let ?tr1 = "tr @ [EvOpen ?a ?u (Some (length tr))]"
  let ?tr2 = "tr @ [EvOpen ?a ?u (Some (length tr)), EvOpen ?a ?u (Some (Suc (length tr))),
                    EvQueryRow (Suc (length tr)) (exists_sql dialect (Database cfg)),
                    EvClose (Suc (length tr))]"
  have cs: "CreateSession drv dialect cfg True tr = (Inr ?s, ?tr1)"
    using assms(1,2) by (simp add: CreateSession_supported unscoped_settings_def)
  have ex: "snd (DBExists drv dialect cfg ?tr1) = ?tr2"
    using assms(1,3) by (simp add: DBExists_supported split: sum.splits)
  obtain evs where cd: "snd (CreateDB drv dialect cfg ?tr2) = ?tr2 @ evs"
    using CreateDB_extends by blast
  obtain evs' where cs2: "snd (CreateSession drv dialect cfg False (Close ?s ?tr2))
                            = Close ?s ?tr2 @ evs'"
    using CreateSession_extends by blast
  have "\<exists>rest. snd (ConnectDB drv dialect cfg tr) = ?tr2 @ rest"
  proof (cases "DBExists drv dialect cfg ?tr1")
    case (Pair r t)
    with ex have t: "t = ?tr2" by simp
    obtain b e where r: "r = (b, e)" by (cases r)
    show ?thesis
    proof (cases b)
      case True
      with Pair t r cs cs2 show ?thesis
        by (auto simp: ConnectDB_def Close_def Let_def split: prod.splits sum.splits)
    next
      case False
      with Pair t r cs cd show ?thesis
        by (auto simp: ConnectDB_def split: prod.splits option.splits)
    qed
  qed
  then obtain rest where "snd (ConnectDB drv dialect cfg tr) = ?tr2 @ rest" ..
  then show ?thesis by simp
qed

theorem ConnectDB_probe_opens_own_session_witness:
  "(''mysql'' = ''postgres'' \<or> ''mysql'' = ''mysql'') \<and>
   open_err (catalog_driver [''app''] ''app'') [] (adapter_of ''mysql'')
     (unscoped_settings (config ''app'')) = None \<and>
   take 4 (snd (ConnectDB (catalog_driver [''app''] ''app'') ''mysql'' (config ''app'') []))
     = [EvOpen Mysql (unscoped_settings (config ''app'')) (Some 0),
        EvOpen Mysql (unscoped_settings (config ''app'')) (Some (Suc 0)),
        EvQueryRow (Suc 0) (exists_sql ''mysql'' ''app''),
        EvClose (Suc 0)]"
  using ConnectDB_probe_opens_own_session
          [of "''mysql''" "catalog_driver [''app''] ''app''" "[]" "config ''app''"]
  by (simp add: catalog_driver_def config_def adapter_of_def)

text \<open>
  C2, as the claim states it, fails: with a query that fails ("connection reset") the
  probe returns its wrapped error, and \<^verbatim>\<open>ConnectDB\<close> still sends the
  \<^verbatim>\<open>CREATE DATABASE\<close> statement and returns a session, not the probe's error.
\<close>

theorem ConnectDB_probe_error_counterexample:
  "fst (DBExists (fixed_driver (Inl ''connection reset'') (Inr True)) ''mysql'' (config ''app'')
          [EvOpen Mysql (unscoped_settings (config ''app'')) (Some 0)])
     = (False, Some (Errorf ''failed to check db existence: '' (DriverError ''connection reset''))) \<and>
   fst (ConnectDB (fixed_driver (Inl ''connection reset'') (Inr True)) ''mysql'' (config ''app'') [])
     = Inr \<lparr>sess_id = 0, sess_adapter = Mysql, sess_url = unscoped_settings (config ''app'')\<rparr> \<and>
   EvExec 4 ''CREATE DATABASE IF NOT EXISTS app''
     \<in> set (snd (ConnectDB (fixed_driver (Inl ''connection reset'') (Inr True)) ''mysql''
                    (config ''app'') []))"
  by (simp add: ev_defs)

text \<open>
  C2, amended. When the bootstrap session opens and the probe fails with a query error,
  \<^verbatim>\<open>ConnectDB\<close> drops the probe's error and goes on as for an absent database: it
  calls \<^verbatim>\<open>CreateDB\<close>, whose events end the trace; it never returns the probe's
  error; it returns an error exactly when \<^verbatim>\<open>CreateDB\<close> does, and that error is the
  one of \<^verbatim>\<open>CreateDB\<close>.
\<close>

theorem ConnectDB_probe_error_discarded:
  assumes "CreateSession drv dialect cfg True tr = (Inr sess, tr1)"
    and "DBExists drv dialect cfg tr1
           = ((False, Some (Errorf ''failed to check db existence: '' cause)), tr2)"
  shows "snd (ConnectDB drv dialect cfg tr) = snd (CreateDB drv dialect cfg tr2) \<and>
         fst (ConnectDB drv dialect cfg tr) \<noteq> Inl (Errorf ''failed to check db existence: '' cause) \<and>
         (case fst (ConnectDB drv dialect cfg tr) of
            Inl err \<Rightarrow> fst (CreateDB drv dialect cfg tr2) = Some err
          | Inr s \<Rightarrow> fst (CreateDB drv dialect cfg tr2) = None)"
proof (cases "CreateDB drv dialect cfg tr2")
  case (Pair r tr3)
  show ?thesis
  proof (cases r)
    case None
    with Pair assms show ?thesis by (simp add: ConnectDB_def)
  next
    case (Some err)
    with Pair have "fst (CreateDB drv dialect cfg tr2) = Some err" by simp
    from CreateDB_error_cases[OF this]
    have "err \<noteq> Errorf ''failed to check db existence: '' cause" by auto
    with Some Pair assms show ?thesis by (simp add: ConnectDB_def)
  qed
qed

theorem ConnectDB_probe_error_discarded_witness:
  "CreateSession (fixed_driver (Inl ''connection reset'') (Inr True)) ''mysql'' (config ''app'') True []
     = (Inr \<lparr>sess_id = 0, sess_adapter = Mysql, sess_url = unscoped_settings (config ''app'')\<rparr>,
        [EvOpen Mysql (unscoped_settings (config ''app'')) (Some 0)]) \<and>
   DBExists (fixed_driver (Inl ''connection reset'') (Inr True)) ''mysql'' (config ''app'')
       [EvOpen Mysql (unscoped_settings (config ''app'')) (Some 0)]
     = ((False, Some (Errorf ''failed to check db existence: '' (DriverError ''connection reset''))),
        [EvOpen Mysql (unscoped_settings (config ''app'')) (Some 0),
         EvOpen Mysql (unscoped_settings (config ''app'')) (Some 1),
         EvQueryRow 1 (exists_sql ''mysql'' ''app''),
         EvClose 1]) \<and>
   snd (ConnectDB (fixed_driver (Inl ''connection reset'') (Inr True)) ''mysql'' (config ''app'') [])
     = snd (CreateDB (fixed_driver (Inl ''connection reset'') (Inr True)) ''mysql'' (config ''app'')
        [EvOpen Mysql (unscoped_settings (config ''app'')) (Some 0),
         EvOpen Mysql (unscoped_settings (config ''app'')) (Some 1),
         EvQueryRow 1 (exists_sql ''mysql'' ''app''),
         EvClose 1]) \<and>
   fst (ConnectDB (fixed_driver (Inl ''connection reset'') (Inr True)) ''mysql'' (config ''app'') [])
     \<noteq> Inl (Errorf ''failed to check db existence: '' (DriverError ''connection reset''))"
  using ConnectDB_probe_error_discarded
    [of "fixed_driver (Inl ''connection reset'') (Inr True)" "''mysql''" "config ''app''" "[]"
        "\<lparr>sess_id = 0, sess_adapter = Mysql, sess_url = unscoped_settings (config ''app'')\<rparr>"
        "[EvOpen Mysql (unscoped_settings (config ''app'')) (Some 0)]"
        "DriverError ''connection reset''"
        "[EvOpen Mysql (unscoped_settings (config ''app'')) (Some 0),
          EvOpen Mysql (unscoped_settings (config ''app'')) (Some 1),
          EvQueryRow 1 (exists_sql ''mysql'' ''app''),
          EvClose 1]"]
  by (simp add: DBExists_def DBExists_body_def CreateSession_def db_Open_def QueryRow_def Close_def
        fixed_driver_def config_def unscoped_settings_def exists_sql_def Let_def)

text \<open>
  C1 at a database that is absent: MySQL, catalog without \<^verbatim>\<open>app\<close>, every call
  succeeds. \<^verbatim>\<open>ConnectDB\<close> returns session 0, the unscoped bootstrap session, which is
  never closed; the sessions opened are the bootstrap one, the probe's and the
  provisioner's, and no scoped session is opened.
\<close>

theorem ConnectDB_absent_returns_bootstrap:
  "fst (ConnectDB (catalog_driver [''mysql'', ''sys''] ''app'') ''mysql'' (config ''app'') [])
     = Inr \<lparr>sess_id = 0, sess_adapter = Mysql,
            sess_url = \<lparr>url_Host = ''localhost'', url_User = ''admin'',
                         url_Password = ''secret'', url_Database = []\<rparr>\<rparr> \<and>
   opens (snd (ConnectDB (catalog_driver [''mysql'', ''sys''] ''app'') ''mysql'' (config ''app'') []))
     = [0, 1, 4] \<and>
   closes (snd (ConnectDB (catalog_driver [''mysql'', ''sys''] ''app'') ''mysql'' (config ''app'') []))
     = [1, 4]"
  by (simp add: ev_defs)

text \<open>
  C3 at a failing provision: PostgreSQL, database absent, \<^verbatim>\<open>CREATE DATABASE\<close> refused.
  \<^verbatim>\<open>ConnectDB\<close> returns the error of \<^verbatim>\<open>CreateDB\<close> and the bootstrap session 0
  is still open.
\<close>

theorem ConnectDB_provision_failure_leaks_bootstrap:
  "fst (ConnectDB (fixed_driver (Inr (Row None)) (Inl ''permission denied'')) ''postgres''
          (config ''app'') [])
     = Inl (DriverError ''permission denied'') \<and>
   live (snd (ConnectDB (fixed_driver (Inr (Row None)) (Inl ''permission denied'')) ''postgres''
                (config ''app'') []))
     = [0]"
  by (simp add: ev_defs)

end
